theory Spec2Isabelle
  imports Main "HOL-Library.Word" "HOL-Library.AList" "HOL-Library.Multiset"
begin

section \<open>Data model (core/types.go)\<close>

text \<open>
  A value of Go's empty interface \<^verbatim>\<open>interface{}\<close>: the nil interface, a string, or a
  dynamic value of some other type (its content is never inspected by the core).
\<close>

datatype any = ANil | AString string | AOther nat

text \<open>
  A Go map read at a missing key yields the zero value of the element type; for
  \<^verbatim>\<open>map[string]interface{}\<close> that is the nil interface. A nil map reads like an empty
  one, and both are the empty HOL map here.
\<close>

definition index :: "(string \<rightharpoonup> any) \<Rightarrow> string \<Rightarrow> any" where
  "index m k = (case m k of None \<Rightarrow> ANil | Some v \<Rightarrow> v)"

record Session =
  ID :: string
  Values :: "(any \<times> any) list"
  Expires :: "64 word"

record Event =
  Type :: string
  Platform :: string
  Data :: "string \<rightharpoonup> any"
  Session :: "Session option"

record Response =
  Type :: string
  Data :: any
  Metadata :: "string \<rightharpoonup> string"

definition EventTypeMessage :: string where "EventTypeMessage = ''message''"
definition EventTypeNotice :: string where "EventTypeNotice = ''notice''"
definition ResponseTypeText :: string where "ResponseTypeText = ''text''"
definition ResponseTypeError :: string where "ResponseTypeError = ''error''"
definition ResponseTypeNotHandled :: string where "ResponseTypeNotHandled = ''not_handled''"

text \<open>
  \<^verbatim>\<open>func (e Event) Reset()\<close> has a value receiver: the four assignments act on the
  method's own copy of the event. \<open>Reset e\<close> is that copy when the method returns; Go
  discards it, and the caller's variable is untouched.
\<close>

definition Reset :: "Event \<Rightarrow> Event" where
  "Reset e = e\<lparr>Event.Type := [], Platform := [], Event.Data := Map.empty, Session := None\<rparr>"

section \<open>Commands, handlers and middleware (core/processor.go)\<close>

text \<open>
  The ways a call can panic: the failed type assertion of \<^verbatim>\<open>Process\<close>, a nil pointer
  or nil function used, and a panic raised inside a command handler (with its message).
\<close>

datatype panic = TypeAssertionPanic | NilDereference | HandlerPanic string

text \<open>
  \<^verbatim>\<open>context.Context\<close> is reduced to its cancellation flag. A \<^verbatim>\<open>Context\<close> holds a pointer
  to the resolved command; a HOL datatype cannot hold a function whose argument contains
  the datatype itself, so the handler sees the command's descriptive fields only.
\<close>

datatype GoContext = GoContext (cancelled: bool)

record CommandInfo =
  Name :: string
  fullPath :: string
  Aliases :: "string list"
  Description :: string
  Usage :: string

record Context =
  ctx :: GoContext
  Event :: Event
  Response :: Response
  Session :: "Session option"
  Command :: CommandInfo

text \<open>
  A handler receives the context and the remaining arguments, writes its result into the
  response the context points to, and returns an error or nil. The model passes the
  response in (field \<open>Response\<close> of the context, its state at the call) and out (first
  component of the result); the error is its message, \<open>None\<close> for nil.
  A handler that panics yields \<open>Inl\<close> of the panic's message.
  A Go function value may be nil: \<open>None\<close>.
\<close>

type_synonym HandlerFunc =
  "Context \<Rightarrow> string list \<Rightarrow> string + (Response \<times> string option)"
type_synonym CommandHandler = "HandlerFunc option"
type_synonym Middleware = "CommandHandler \<Rightarrow> CommandHandler"

text \<open>Calling a handler value: a nil function panics, a panic inside the handler goes on.\<close>

definition call ::
  "CommandHandler \<Rightarrow> Context \<Rightarrow> string list \<Rightarrow> panic + (Response \<times> string option)" where
  "call handler c args =
     (case handler of
        None \<Rightarrow> Inl NilDereference
      | Some f \<Rightarrow> (case f c args of Inl msg \<Rightarrow> Inl (HandlerPanic msg) | Inr res \<Rightarrow> Inr res))"

text \<open>
  The command tree. The two Go maps of a node are association lists read with
  \<open>map_of\<close> and written with \<open>AList.update\<close>. The \<^verbatim>\<open>Parent\<close> back pointer and the
  lock are left out: no function below reads them. Children are held by value, so the
  model covers trees in which no node is shared between two parents.
\<close>

datatype Command = MkCommand
  (Name: string)
  (fullPath: string)
  (Aliases: "string list")
  (Description: string)
  (Usage: string)
  (Handler: CommandHandler)
  (commands: "(string \<times> Command) list")
  (commandsAliases: "(string \<times> string) list")

definition info :: "Command \<Rightarrow> CommandInfo" where
  "info c = \<lparr>CommandInfo.Name = Command.Name c, fullPath = Command.fullPath c,
     Aliases = Command.Aliases c, Description = Command.Description c,
     Usage = Command.Usage c\<rparr>"

fun set_Handler :: "CommandHandler \<Rightarrow> Command \<Rightarrow> Command" where
  "set_Handler h (MkCommand n fp al d u _ cs ca) = MkCommand n fp al d u h cs ca"

fun set_commands :: "(string \<times> Command) list \<Rightarrow> Command \<Rightarrow> Command" where
  "set_commands cs (MkCommand n fp al d u h _ ca) = MkCommand n fp al d u h cs ca"

fun set_commandsAliases :: "(string \<times> string) list \<Rightarrow> Command \<Rightarrow> Command" where
  "set_commandsAliases ca (MkCommand n fp al d u h cs _) = MkCommand n fp al d u h cs ca"

text \<open>\<^verbatim>\<open>AddCommand\<close>: each command is stored under its name, each of its aliases under
  the alias map, later entries overwriting earlier ones.\<close>

definition AddCommand1 :: "Command \<Rightarrow> Command \<Rightarrow> Command" where
  "AddCommand1 c cmd =
     set_commandsAliases
       (fold (\<lambda>alias m. AList.update alias (Command.Name cmd) m) (Command.Aliases cmd)
          (commandsAliases c))
       (set_commands (AList.update (Command.Name cmd) cmd (commands c)) c)"

definition AddCommand :: "Command \<Rightarrow> Command list \<Rightarrow> Command" where
  "AddCommand c cmds = fold (\<lambda>cmd c'. AddCommand1 c' cmd) cmds c"

text \<open>
  \<^verbatim>\<open>SetFullPath\<close>: the node keeps a non-empty path or takes its name; every child gets
  the node's path, a space and the child's name, and then sets the paths below it.
  \<open>SetFullPath_from p c\<close> is the call on \<open>c\<close> once its path field holds \<open>p\<close>.
\<close>

fun SetFullPath_from :: "string \<Rightarrow> Command \<Rightarrow> Command" where
  "SetFullPath_from p (MkCommand n fp al d u h cs ca) =
     (let p' = (if p = [] then n else p) in
      MkCommand n p' al d u h
        (map (\<lambda>(k, subCmd). (k, SetFullPath_from (p' @ '' '' @ Command.Name subCmd) subCmd)) cs)
        ca)"

definition SetFullPath :: "Command \<Rightarrow> Command" where
  "SetFullPath c = SetFullPath_from (Command.fullPath c) c"

text \<open>
  \<^verbatim>\<open>Command.Find\<close>. A child is looked up by name, then by alias. An alias whose name
  has no entry in \<^verbatim>\<open>commands\<close> yields a nil pointer: \<^verbatim>\<open>Find\<close> on it returns
  \<^verbatim>\<open>(nil, nil)\<close> when no argument is left and dereferences nil otherwise.
  A nil slice and an empty slice are both \<open>[]\<close>.
\<close>

fun Command_Find :: "Command \<Rightarrow> string list \<Rightarrow> panic + (Command option \<times> string list)" where
  "Command_Find c [] = Inr (Some c, [])"
| "Command_Find c (a # args) =
     (case map_of (commands c) a of
        Some subCmd \<Rightarrow> Command_Find subCmd args
      | None \<Rightarrow>
          (case map_of (commandsAliases c) a of
             Some name \<Rightarrow>
               (case map_of (commands c) name of
                  Some subCmd \<Rightarrow> Command_Find subCmd args
                | None \<Rightarrow> (if args = [] then Inr (None, []) else Inl NilDereference))
           | None \<Rightarrow> Inr (Some c, a # args)))"

section \<open>Command registry\<close>

record CommandRegistry =
  commands :: "string \<rightharpoonup> Command"

definition NewRegistry :: CommandRegistry where
  "NewRegistry = \<lparr>commands = Map.empty\<rparr>"

definition registerCommandWithAlias :: "CommandRegistry \<Rightarrow> Command \<Rightarrow> CommandRegistry" where
  "registerCommandWithAlias r cmd =
     r\<lparr>commands :=
         fold (\<lambda>alias m. m(alias \<mapsto> cmd)) (Command.Aliases cmd)
           ((commands r)(Command.Name cmd \<mapsto> cmd))\<rparr>"

text \<open>\<^verbatim>\<open>registerMiddleware\<close>: the loop runs over the middlewares from the last to the
  first, each applied to the handler built so far.\<close>

definition registerMiddleware :: "Command \<Rightarrow> Middleware list \<Rightarrow> Command" where
  "registerMiddleware cmd mws =
     set_Handler (fold (\<lambda>mw handler. mw handler) (rev mws) (Handler cmd)) cmd"

text \<open>
  \<^verbatim>\<open>Register\<close> returns the registry after the call, the argument command after the call
  (Go mutates it through the pointer) and the command returned.
\<close>

definition Register ::
  "CommandRegistry \<Rightarrow> Command \<Rightarrow> Middleware list \<Rightarrow> CommandRegistry \<times> Command \<times> Command" where
  "Register r cmd mws =
     (case commands r (Command.Name cmd) of
        Some existing \<Rightarrow> (r, cmd, existing)
      | None \<Rightarrow>
          (let cmd1 = SetFullPath cmd;
               cmd2 = registerMiddleware cmd1 mws;
               cmd3 = set_commands
                        (map (\<lambda>(k, subCmd). (k, registerMiddleware subCmd mws))
                           (Command.commands cmd2)) cmd2
           in (registerCommandWithAlias r cmd3, cmd3, cmd3)))"

definition Registry_Find ::
  "CommandRegistry \<Rightarrow> string list \<Rightarrow> panic + (Command option \<times> string list)" where
  "Registry_Find r args =
     (case args of
        [] \<Rightarrow> Inr (None, [])
      | cmdName # rest \<Rightarrow>
          (case commands r cmdName of
             None \<Rightarrow> Inr (None, args)
           | Some cmd \<Rightarrow>
               (case Command_Find cmd rest of
                  Inl p \<Rightarrow> Inl p
                | Inr (None, remaining) \<Rightarrow> Inl NilDereference
                | Inr (Some currentCmd, remaining) \<Rightarrow> Inr (Some currentCmd, remaining))))"

section \<open>Event processor\<close>

text \<open>
  The Go library functions used by \<^verbatim>\<open>ParseCommand\<close>. A Go string is a sequence of
  bytes, here a \<open>string\<close>; a rune is a code point, here a natural number.
\<close>

definition HasPrefix :: "string \<Rightarrow> string \<Rightarrow> bool" where
  "HasPrefix s p = (take (length p) s = p)"

definition TrimPrefix :: "string \<Rightarrow> string \<Rightarrow> string" where
  "TrimPrefix s p = (if HasPrefix s p then drop (length p) s else s)"

text \<open>
  \<^verbatim>\<open>utf8.DecodeRuneInString\<close>, which is what a \<^verbatim>\<open>range\<close> over a string does at each
  position: the rune encoded at the head of the string and the number of bytes of its
  encoding. Only well-formed UTF-8 is decoded (no overlong forms, no surrogates, nothing
  above U+10FFFF); any other head byte, also a truncated encoding, yields
  \<^verbatim>\<open>RuneError\<close> and the width 1.
\<close>

definition RuneError :: nat where "RuneError = 0xFFFD"

definition byte :: "char \<Rightarrow> nat" where
  "byte c = of_char c"

definition between :: "nat \<Rightarrow> nat \<Rightarrow> char \<Rightarrow> bool" where
  "between lo hi c = (lo \<le> byte c \<and> byte c \<le> hi)"

definition DecodeRuneInString :: "string \<Rightarrow> nat \<times> nat" where
  "DecodeRuneInString s =
     (case s of
        [] \<Rightarrow> (RuneError, 0)
      | b0 # s1 \<Rightarrow>
          if byte b0 < 0x80 then (byte b0, 1)
          else if between 0xC2 0xDF b0 then
            (case s1 of
               b1 # _ \<Rightarrow>
                 if between 0x80 0xBF b1
                 then ((byte b0 mod 0x20) * 0x40 + byte b1 mod 0x40, 2)
                 else (RuneError, 1)
             | _ \<Rightarrow> (RuneError, 1))
          else if between 0xE0 0xEF b0 then
            (case s1 of
               b1 # b2 # _ \<Rightarrow>
                 if between (if byte b0 = 0xE0 then 0xA0 else 0x80)
                            (if byte b0 = 0xED then 0x9F else 0xBF) b1
                    \<and> between 0x80 0xBF b2
                 then ((byte b0 mod 0x10) * 0x1000 + (byte b1 mod 0x40) * 0x40
                         + byte b2 mod 0x40, 3)
                 else (RuneError, 1)
             | _ \<Rightarrow> (RuneError, 1))
          else if between 0xF0 0xF4 b0 then
            (case s1 of
               b1 # b2 # b3 # _ \<Rightarrow>
                 if between (if byte b0 = 0xF0 then 0x90 else 0x80)
                            (if byte b0 = 0xF4 then 0x8F else 0xBF) b1
                    \<and> between 0x80 0xBF b2 \<and> between 0x80 0xBF b3
                 then ((byte b0 mod 0x08) * 0x40000 + (byte b1 mod 0x40) * 0x1000
                         + (byte b2 mod 0x40) * 0x40 + byte b3 mod 0x40, 4)
                 else (RuneError, 1)
             | _ \<Rightarrow> (RuneError, 1))
          else (RuneError, 1))"

text \<open>
  \<^verbatim>\<open>unicode.IsSpace\<close>: in Latin-1 the characters tab, line feed, vertical tab, form
  feed, carriage return, space, U+0085 and U+00A0; beyond Latin-1 the code points of the
  Unicode property \<^verbatim>\<open>White_Space\<close>.
\<close>

definition IsSpace :: "nat \<Rightarrow> bool" where
  "IsSpace r =
     (if r \<le> 0xFF
      then r = 0x09 \<or> r = 0x0A \<or> r = 0x0B \<or> r = 0x0C \<or> r = 0x0D \<or> r = 0x20
           \<or> r = 0x85 \<or> r = 0xA0
      else r = 0x1680 \<or> (0x2000 \<le> r \<and> r \<le> 0x200A) \<or> r = 0x2028 \<or> r = 0x2029
           \<or> r = 0x202F \<or> r = 0x205F \<or> r = 0x3000)"

text \<open>
  \<^verbatim>\<open>strings.FieldsFunc\<close> walks the string rune by rune and cuts it at each run of runes
  that satisfy \<open>f\<close>; the fields are the byte strings in between.
  \<open>FieldsFunc_from f field s\<close> is the walk over the rest \<open>s\<close> with the bytes of the
  field begun (none when no field is begun).
  \<^verbatim>\<open>strings.Fields\<close> is \<^verbatim>\<open>FieldsFunc\<close> with \<^verbatim>\<open>unicode.IsSpace\<close>; its shortcut for
  strings of ASCII bytes computes the same fields.
\<close>

fun FieldsFunc_from :: "(nat \<Rightarrow> bool) \<Rightarrow> string \<Rightarrow> string \<Rightarrow> string list" where
  "FieldsFunc_from f field [] = (if field = [] then [] else [field])"
| "FieldsFunc_from f field (b # s) =
     (case DecodeRuneInString (b # s) of
        (rune, width) \<Rightarrow>
          if f rune
          then (if field = [] then FieldsFunc_from f [] (drop (width - 1) s)
                else field # FieldsFunc_from f [] (drop (width - 1) s))
          else FieldsFunc_from f (field @ take width (b # s)) (drop (width - 1) s))"

definition FieldsFunc :: "string \<Rightarrow> (nat \<Rightarrow> bool) \<Rightarrow> string list" where
  "FieldsFunc s f = FieldsFunc_from f [] s"

definition Fields :: "string \<Rightarrow> string list" where
  "Fields s = FieldsFunc s IsSpace"

definition splitCommand :: "string \<Rightarrow> string list" where
  "splitCommand input = (let parts = Fields input in if length parts = 0 then [] else parts)"

definition ParseCommand :: "string \<Rightarrow> string list" where
  "ParseCommand input =
     (if \<not> HasPrefix input ''/'' then []
      else splitCommand (TrimPrefix input ''/''))"

record PluginManager =
  registry :: CommandRegistry

record EventProcessor =
  plugins :: PluginManager

text \<open>
  \<^verbatim>\<open>Process\<close>. The result is the list of argument lists the registry's \<^verbatim>\<open>Find\<close> was
  called with, in order, and either the panic that left the function or the response
  returned. Logging is left out. The type assertion on \<^verbatim>\<open>e.Data["text"]\<close> panics unless
  the value is a string; calling a nil handler panics; a panic of the handler is not
  recovered.
\<close>

definition Process ::
  "EventProcessor \<Rightarrow> GoContext \<Rightarrow> Event \<Rightarrow> string list list \<times> (panic + Response)" where
  "Process ep c e =
     (case index (Event.Data e) ''text'' of
        AString text \<Rightarrow>
          (let args = ParseCommand text in
           if length args = 0
           then ([], Inr \<lparr>Type = ResponseTypeNotHandled, Data = ANil, Metadata = Map.empty\<rparr>)
           else
             (case Registry_Find (registry (plugins ep)) args of
                Inl p \<Rightarrow> ([args], Inl p)
              | Inr (None, remainingArgs) \<Rightarrow>
                  ([args], Inr \<lparr>Type = ResponseTypeError, Data = AString ''command not found'',
                                Metadata = Map.empty\<rparr>)
              | Inr (Some cmd, remainingArgs) \<Rightarrow>
                  (case call (Handler cmd)
                          \<lparr>ctx = c, Event = e,
                           Response = \<lparr>Type = [], Data = ANil, Metadata = Map.empty\<rparr>,
                           Session = Event.Session e, Command = info cmd\<rparr>
                          remainingArgs of
                     Inl p \<Rightarrow> ([args], Inl p)
                   | Inr (resp, Some err) \<Rightarrow>
                       ([args], Inr \<lparr>Type = ResponseTypeError, Data = AString err,
                                     Metadata = Map.empty\<rparr>)
                   | Inr (resp, None) \<Rightarrow> ([args], Inr resp))))
      | _ \<Rightarrow> ([], Inl TypeAssertionPanic))"

section \<open>Engine: recycling events (core/engine.go)\<close>

text \<open>
  The event pool is the list of the events put into it. \<^verbatim>\<open>recycleEvent\<close> receives the
  event by value, calls \<^verbatim>\<open>Reset\<close> on it (which works on a copy of its own, see above)
  and puts the address of its own variable \<^verbatim>\<open>event\<close> into the pool.
\<close>

record Engine =
  eventPool :: "Event list"

definition recycleEvent :: "Engine \<Rightarrow> Event \<Rightarrow> Engine" where
  "recycleEvent e event =
     (let receiver = Reset event
      in e\<lparr>eventPool := event # eventPool e\<rparr>)"

section \<open>Worker pool (core/engine.go)\<close>

text \<open>
  The pool runs on several goroutines, so it is modelled as a transition system: a state
  of the pool and of its goroutines, and one action for each step a goroutine can take
  in \<^verbatim>\<open>Start\<close>, \<^verbatim>\<open>Submit\<close>, \<^verbatim>\<open>Stop\<close> and in the worker's loop. A schedule is a list
  of actions; every interleaving of the goroutines is some schedule.

  A task is a value of type \<open>'a\<close>; what it computes is not looked at. A worker is about
  to receive from the channel, or inside the call of a task, or has left its loop and
  run the deferred \<^verbatim>\<open>wg.Done()\<close>. A task that never returns leaves its worker inside
  the call for ever. A task that panics ends the whole program; there is no action
  for it.
\<close>

datatype 'a goroutine = Receiving | Running 'a | Exited

text \<open>The call of \<^verbatim>\<open>Stop\<close>: not made, past \<^verbatim>\<open>close\<close> and inside \<^verbatim>\<open>wg.Wait()\<close>, returned.\<close>

datatype stop_phase = NotCalled | Waiting | Returned

text \<open>The struct: the buffer of the channel with its closed flag, and the counter of the
  wait group.\<close>

record 'a WorkerPool =
  workers :: int
  taskChan :: "'a list"
  taskChan_closed :: bool
  wg :: int

text \<open>
  The running pool adds the number of goroutines \<^verbatim>\<open>Start\<close> has still to spawn, the
  workers spawned, the phase of \<^verbatim>\<open>Stop\<close>, and two logs: the tasks whose \<^verbatim>\<open>Submit\<close>
  returned and the tasks whose call returned.
\<close>

record 'a PoolRun = "'a WorkerPool" +
  spawning :: nat
  goroutines :: "'a goroutine list"
  stop :: stop_phase
  submitted :: "'a list"
  completed :: "'a list"











section \<open>Example handlers, middlewares, commands and events\<close>

text \<open>
  Values used where a theorem is evaluated on an input. \<open>mark\<close> appends a tag to the
  text of a response, so the text records who ran and in which order: \<open>reply\<close> is a
  handler that marks and succeeds, \<open>before f\<close> a middleware that applies \<open>f\<close> to the
  context and then calls the next handler on the result, \<open>passing\<close> the one that marks
  the response, \<open>aborting\<close> a middleware that marks and returns an error without
  calling the next handler.
\<close>

definition mark :: "string \<Rightarrow> Response \<Rightarrow> Response" where
  "mark tag resp =
     resp\<lparr>Type := ResponseTypeText,
          Data := AString ((case Response.Data resp of AString s \<Rightarrow> s | _ \<Rightarrow> []) @ tag)\<rparr>"

definition reply :: "string \<Rightarrow> HandlerFunc" where
  "reply tag c args = Inr (mark tag (Response c), None)"

definition before :: "(Context \<Rightarrow> Context) \<Rightarrow> Middleware" where
  "before f next =
     Some (\<lambda>c args.
       (case next of
          None \<Rightarrow> Inl ''nil handler''
        | Some h \<Rightarrow> h (f c) args))"

definition passing :: "string \<Rightarrow> Middleware" where
  "passing tag = before (\<lambda>c. c\<lparr>Response := mark tag (Response c)\<rparr>)"

definition aborting :: "string \<Rightarrow> Middleware" where
  "aborting tag next = Some (\<lambda>c args. Inr (mark tag (Response c), Some ''denied''))"

definition leaf :: "string \<Rightarrow> string list \<Rightarrow> Command" where
  "leaf name aliases = MkCommand name [] aliases [] [] (Some (reply name)) [] []"

definition admin_tree :: Command where
  "admin_tree =
     AddCommand (leaf ''admin'' [])
       [AddCommand (leaf ''user'' [''u'']) [leaf ''ban'' [''b'']]]"

definition textEvent :: "string \<Rightarrow> Event" where
  "textEvent t =
     \<lparr>Event.Type = EventTypeMessage, Platform = ''slack'',
      Event.Data = [''text'' \<mapsto> AString t], Session = None\<rparr>"

definition processorOf :: "CommandRegistry \<Rightarrow> EventProcessor" where
  "processorOf r = \<lparr>plugins = \<lparr>registry = r\<rparr>\<rparr>"

definition ctx0 :: Context where
  "ctx0 = \<lparr>ctx = GoContext False, Event = textEvent ''/ping'',
           Response = \<lparr>Type = [], Data = ANil, Metadata = Map.empty\<rparr>,
           Session = None, Command = info (leaf ''ping'' [])\<rparr>"

section \<open>Tokens of a text\<close>

lemmas Fields_eval =
  Fields_def FieldsFunc_def DecodeRuneInString_def byte_def between_def IsSpace_def

text \<open>White space beyond ASCII separates tokens: here the ideographic space U+3000
  (bytes E3 80 80). A text of white space only, here the no-break space U+00A0 (bytes
  C2 A0), has no tokens.\<close>

lemma ParseCommand_ideographic_space:
  "ParseCommand (''/ban'' @ [CHR 0xE3, CHR 0x80, CHR 0x80] @ ''userX'') = [''ban'', ''userX'']"
  by (simp add: ParseCommand_def splitCommand_def Fields_eval TrimPrefix_def HasPrefix_def)

lemma ParseCommand_no_break_space:
  "ParseCommand (''/'' @ [CHR 0xC2, CHR 0xA0]) = []"
  by (simp add: ParseCommand_def splitCommand_def Fields_eval TrimPrefix_def HasPrefix_def)

section \<open>Recycled events\<close>

lemma recycleEvent_pool: "eventPool (recycleEvent e event) = event # eventPool e"
  by (simp add: recycleEvent_def)

text \<open>
  C1. The claim: the event that \<^verbatim>\<open>recycleEvent\<close> puts back into the pool has every field
  at its zero value. The code resets a copy: with an empty pool and a message event from
  slack, the pool then holds that event with its type, platform and data as they were.
\<close>

theorem recycleEvent_pools_unreset_event:
  "eventPool (recycleEvent \<lparr>eventPool = []\<rparr>
       \<lparr>Event.Type = ''message'', Platform = ''slack'',
        Event.Data = [''text'' \<mapsto> AString ''/help''], Session = None\<rparr>)
     = [\<lparr>Event.Type = ''message'', Platform = ''slack'',
         Event.Data = [''text'' \<mapsto> AString ''/help''], Session = None\<rparr>]
   \<and> Event.Type (hd (eventPool (recycleEvent \<lparr>eventPool = []\<rparr>
       \<lparr>Event.Type = ''message'', Platform = ''slack'',
        Event.Data = [''text'' \<mapsto> AString ''/help''], Session = None\<rparr>))) = ''message''
   \<and> Platform (hd (eventPool (recycleEvent \<lparr>eventPool = []\<rparr>
       \<lparr>Event.Type = ''message'', Platform = ''slack'',
        Event.Data = [''text'' \<mapsto> AString ''/help''], Session = None\<rparr>))) = ''slack''"
  by (simp add: recycleEvent_def)

section \<open>Lookup in the registry\<close>

text \<open>
  C2, as stated: \<^verbatim>\<open>Find\<close> returns \<^verbatim>\<open>(nil, nil)\<close> also when the first token matches
  nothing. On the empty registry and the tokens \<open>[help]\<close> it returns the nil command
  with the tokens \<open>[help]\<close>, not with nil.
\<close>

theorem Registry_Find_unmatched_counterexample:
  "Registry_Find NewRegistry [''help''] = Inr (None, [''help''])
   \<and> Registry_Find NewRegistry [''help''] \<noteq> Inr (None, [])"
  by (simp add: Registry_Find_def NewRegistry_def)

text \<open>
  C2, amended: \<^verbatim>\<open>Find\<close> returns \<^verbatim>\<open>(nil, nil)\<close> when the token list is empty; when the
  first token matches no registered name or alias it returns the nil command together
  with the whole token list, unconsumed.
\<close>

theorem Registry_Find_no_command:
  "(args = [] \<longrightarrow> Registry_Find r args = Inr (None, []))
   \<and> (args \<noteq> [] \<and> commands r (hd args) = None \<longrightarrow> Registry_Find r args = Inr (None, args))"
  by (cases args) (simp_all add: Registry_Find_def)

theorem Registry_Find_no_command_witness:
  "Registry_Find NewRegistry [] = Inr (None, [])
   \<and> ([''help'', ''me''] \<noteq> [] \<and> commands NewRegistry (hd [''help'', ''me'']) = None
        \<and> Registry_Find NewRegistry [''help'', ''me''] = Inr (None, [''help'', ''me'']))"
  using Registry_Find_no_command [of "[]" NewRegistry]
    Registry_Find_no_command [of "[''help'', ''me'']" NewRegistry]
  by (simp add: NewRegistry_def)

section \<open>Registration\<close>

lemma Name_set_Handler [simp]: "Command.Name (set_Handler h c) = Command.Name c"
  by (cases c) simp

lemma Name_set_commands [simp]: "Command.Name (set_commands cs c) = Command.Name c"
  by (cases c) simp

lemma Name_SetFullPath_from [simp]: "Command.Name (SetFullPath_from p c) = Command.Name c"
  by (cases c) (simp add: Let_def)

lemma Name_SetFullPath [simp]: "Command.Name (SetFullPath c) = Command.Name c"
  by (simp add: SetFullPath_def)

lemma Name_registerMiddleware [simp]: "Command.Name (registerMiddleware c mws) = Command.Name c"
  by (simp add: registerMiddleware_def)

lemma Handler_set_Handler [simp]: "Handler (set_Handler h c) = h"
  by (cases c) simp

lemma Handler_set_commands [simp]: "Handler (set_commands cs c) = Handler c"
  by (cases c) simp

lemma Handler_SetFullPath_from [simp]: "Handler (SetFullPath_from p c) = Handler c"
  by (cases c) (simp add: Let_def)

lemma Handler_SetFullPath [simp]: "Handler (SetFullPath c) = Handler c"
  by (simp add: SetFullPath_def)

lemma registerMiddleware_foldr:
  "Handler (registerMiddleware cmd mws) = foldr (\<lambda>mw handler. mw handler) mws (Handler cmd)"
  by (simp add: registerMiddleware_def foldr_conv_fold)

lemma fold_alias_upd:
  "fold (\<lambda>alias m. m(alias \<mapsto> v)) as m k = (if k \<in> set as then Some v else m k)"
  by (induction as arbitrary: m) auto

lemma registerCommandWithAlias_Name:
  "commands (registerCommandWithAlias r cmd) (Command.Name cmd) = Some cmd"
  by (simp add: registerCommandWithAlias_def fold_alias_upd)

lemma Register_existing:
  "commands r (Command.Name cmd) = Some existing \<Longrightarrow> Register r cmd mws = (r, cmd, existing)"
  by (simp add: Register_def)

lemma Register_fresh:
  assumes "commands r (Command.Name cmd) = None"
  shows "Register r cmd mws =
    (registerCommandWithAlias r
       (set_commands
          (map (\<lambda>(k, subCmd). (k, registerMiddleware subCmd mws))
             (Command.commands (registerMiddleware (SetFullPath cmd) mws)))
          (registerMiddleware (SetFullPath cmd) mws)),
     set_commands
       (map (\<lambda>(k, subCmd). (k, registerMiddleware subCmd mws))
          (Command.commands (registerMiddleware (SetFullPath cmd) mws)))
       (registerMiddleware (SetFullPath cmd) mws),
     set_commands
       (map (\<lambda>(k, subCmd). (k, registerMiddleware subCmd mws))
          (Command.commands (registerMiddleware (SetFullPath cmd) mws)))
       (registerMiddleware (SetFullPath cmd) mws))"
  using assms by (simp add: Register_def Let_def)

lemma Register_result_indexed:
  assumes "Register r cmd mws = (r', cmd', res)"
  shows "commands r' (Command.Name cmd) = Some res"
proof (cases "commands r (Command.Name cmd)")
  case (Some existing)
  with assms show ?thesis by (simp add: Register_def)
next
  case None
  define cmd3 where "cmd3 = set_commands
      (map (\<lambda>(k, subCmd). (k, registerMiddleware subCmd mws))
         (Command.commands (registerMiddleware (SetFullPath cmd) mws)))
      (registerMiddleware (SetFullPath cmd) mws)"
  have n: "Command.Name cmd3 = Command.Name cmd" by (simp add: cmd3_def)
  from None have "Register r cmd mws = (registerCommandWithAlias r cmd3, cmd3, cmd3)"
    by (simp add: Register_fresh cmd3_def)
  with assms have "r' = registerCommandWithAlias r cmd3" "res = cmd3"
    by auto
  then show ?thesis using registerCommandWithAlias_Name [of r cmd3] n by simp
qed

lemma Register_fresh_Handler:
  "commands r (Command.Name cmd) = None \<Longrightarrow>
   Handler (snd (snd (Register r cmd mws))) = foldr (\<lambda>mw handler. mw handler) mws (Handler cmd)"
  by (simp add: Register_fresh registerMiddleware_foldr)

text \<open>
  C4. \<^verbatim>\<open>registerMiddleware\<close> with the middlewares \<open>[A, B]\<close> turns the handler \<open>H\<close> of a
  command into \<open>A (B H)\<close>, and so does \<^verbatim>\<open>Register\<close> for a command registered under a
  new name: a call enters the
  handler made by \<open>A\<close>, whose next handler is the one made by \<open>B\<close>, whose next handler is
  \<open>H\<close>. When \<open>A\<close> and \<open>B\<close> each change the context (by \<open>f\<close> and by \<open>g\<close>) and
  call their next handler, \<open>H\<close> runs on the context changed by \<open>f\<close> first and then by
  \<open>g\<close>. If at a call the handler made by \<open>A\<close> does not use its next handler (its
  outcome is the same for every next handler), the outcome is that of \<open>A\<close> alone:
  nothing of \<open>B\<close> or \<open>H\<close> takes part.
\<close>

theorem middleware_order:
  assumes "commands r (Command.Name cmd) = None"
  shows "Handler (registerMiddleware cmd [A, B]) = A (B (Handler cmd))
    \<and> Handler (snd (snd (Register r cmd [A, B]))) = A (B (Handler cmd))
    \<and> (A = before f \<and> B = before g \<and> Handler cmd = Some H
         \<longrightarrow> call (Handler (snd (snd (Register r cmd [A, B])))) c args
             = call (Some H) (g (f c)) args)
    \<and> ((\<forall>n n'. call (A n) c args = call (A n') c args)
         \<longrightarrow> call (Handler (snd (snd (Register r cmd [A, B])))) c args = call (A None) c args)"
proof -
  have h: "Handler (snd (snd (Register r cmd [A, B]))) = A (B (Handler cmd))"
    using Register_fresh_Handler [OF assms, of "[A, B]"] by simp
  show ?thesis
  proof (intro conjI impI)
    assume "A = before f \<and> B = before g \<and> Handler cmd = Some H"
    with h show "call (Handler (snd (snd (Register r cmd [A, B])))) c args
        = call (Some H) (g (f c)) args"
      by (simp add: before_def call_def)
  next
    show "Handler (registerMiddleware cmd [A, B]) = A (B (Handler cmd))"
      by (simp add: registerMiddleware_foldr)
  next
    show "Handler (snd (snd (Register r cmd [A, B]))) = A (B (Handler cmd))" by (rule h)
  next
    assume "\<forall>n n'. call (A n) c args = call (A n') c args"
    then have "call (A (B (Handler cmd))) c args = call (A None) c args" by blast
    with h show "call (Handler (snd (snd (Register r cmd [A, B])))) c args = call (A None) c args"
      by simp
  qed
qed

theorem middleware_order_witness:
  "commands NewRegistry (Command.Name (leaf ''ping'' [])) = None
   \<and> passing ''A'' = before (\<lambda>c. c\<lparr>Response := mark ''A'' (Response c)\<rparr>)
   \<and> passing ''B'' = before (\<lambda>c. c\<lparr>Response := mark ''B'' (Response c)\<rparr>)
   \<and> Handler (leaf ''ping'' []) = Some (reply ''ping'')
   \<and> call (Handler (snd (snd (Register NewRegistry (leaf ''ping'' []) [passing ''A'', passing ''B'']))))
        ctx0 []
      = Inr (\<lparr>Type = ''text'', Data = AString ''ABping'', Metadata = Map.empty\<rparr>, None)
   \<and> Handler (snd (snd (Register NewRegistry (leaf ''ping'' []) [aborting ''A'', passing ''B''])))
       = aborting ''A'' (passing ''B'' (Handler (leaf ''ping'' [])))
   \<and> (\<forall>n n'. call (aborting ''A'' n) ctx0 [] = call (aborting ''A'' n') ctx0 [])
   \<and> call (Handler (snd (snd (Register NewRegistry (leaf ''ping'' []) [aborting ''A'', passing ''B'']))))
        ctx0 []
      = Inr (\<lparr>Type = ''text'', Data = AString ''A'', Metadata = Map.empty\<rparr>, Some ''denied'')"
proof -
  have f: "commands NewRegistry (Command.Name (leaf ''ping'' [])) = None"
    by (simp add: NewRegistry_def)
  have a: "\<forall>n n'. call (aborting ''A'' n) ctx0 [] = call (aborting ''A'' n') ctx0 []"
    by (simp add: aborting_def call_def)
  have v: "call (aborting ''A'' None) ctx0 []
      = Inr (\<lparr>Type = ''text'', Data = AString ''A'', Metadata = Map.empty\<rparr>, Some ''denied'')"
    by (simp add: aborting_def call_def mark_def ctx0_def ResponseTypeText_def)
  have pa: "passing ''A'' = before (\<lambda>c. c\<lparr>Response := mark ''A'' (Response c)\<rparr>)"
    and pb: "passing ''B'' = before (\<lambda>c. c\<lparr>Response := mark ''B'' (Response c)\<rparr>)"
    by (simp_all add: passing_def)
  have hp: "Handler (leaf ''ping'' []) = Some (reply ''ping'')" by (simp add: leaf_def)
  have u: "call (Some (reply ''ping''))
      ((\<lambda>c. c\<lparr>Response := mark ''B'' (Response c)\<rparr>)
         ((\<lambda>c. c\<lparr>Response := mark ''A'' (Response c)\<rparr>) ctx0)) []
      = Inr (\<lparr>Type = ''text'', Data = AString ''ABping'', Metadata = Map.empty\<rparr>, None)"
    by (simp add: call_def reply_def mark_def ctx0_def ResponseTypeText_def)
  from middleware_order [OF f, where A = "passing ''A''" and B = "passing ''B''"
      and f = "\<lambda>c. c\<lparr>Response := mark ''A'' (Response c)\<rparr>"
      and g = "\<lambda>c. c\<lparr>Response := mark ''B'' (Response c)\<rparr>"
      and H = "reply ''ping''" and c = ctx0 and args = "[]"] pa pb hp
  have "call (Handler (snd (snd (Register NewRegistry (leaf ''ping'' [])
        [passing ''A'', passing ''B''])))) ctx0 []
      = call (Some (reply ''ping''))
      ((\<lambda>c. c\<lparr>Response := mark ''B'' (Response c)\<rparr>)
         ((\<lambda>c. c\<lparr>Response := mark ''A'' (Response c)\<rparr>) ctx0)) []"
    by blast
  from this u have o: "call (Handler (snd (snd (Register NewRegistry (leaf ''ping'' [])
        [passing ''A'', passing ''B''])))) ctx0 []
      = Inr (\<lparr>Type = ''text'', Data = AString ''ABping'', Metadata = Map.empty\<rparr>, None)"
    by (rule trans)
  note m = middleware_order [OF f, where A = "aborting ''A''" and B = "passing ''B''"
      and c = ctx0 and args = "[]"]
  from m have h: "Handler (snd (snd (Register NewRegistry (leaf ''ping'' [])
        [aborting ''A'', passing ''B'']))) = aborting ''A'' (passing ''B'' (Handler (leaf ''ping'' [])))"
    by blast
  from m a have "call (Handler (snd (snd (Register NewRegistry (leaf ''ping'' [])
        [aborting ''A'', passing ''B''])))) ctx0 [] = call (aborting ''A'' None) ctx0 []"
    by blast
  from this v have c: "call (Handler (snd (snd (Register NewRegistry (leaf ''ping'' [])
        [aborting ''A'', passing ''B''])))) ctx0 []
      = Inr (\<lparr>Type = ''text'', Data = AString ''A'', Metadata = Map.empty\<rparr>, Some ''denied'')"
    by (rule trans)
  show ?thesis by (intro conjI f pa pb hp o h a c)
qed

text \<open>
  C5. When the registry already holds a command under the name of the command passed,
  \<^verbatim>\<open>Register\<close> returns the command held, and neither the registry nor the command passed
  changes; the call returns normally. Hence after any call of \<^verbatim>\<open>Register\<close>, a second
  call with a command of the same name (and any middlewares) returns the command the
  first call returned and leaves the registry as the first call left it.
\<close>

theorem Register_idempotent:
  "(commands r (Command.Name cmd) = Some existing \<longrightarrow> Register r cmd mws = (r, cmd, existing))
   \<and> (Register r cmd mws = (r', cmd', res) \<and> Command.Name cmd2 = Command.Name cmd
        \<longrightarrow> Register r' cmd2 mws2 = (r', cmd2, res))"
proof (intro conjI impI)
  assume "commands r (Command.Name cmd) = Some existing"
  then show "Register r cmd mws = (r, cmd, existing)" by (rule Register_existing)
next
  assume a: "Register r cmd mws = (r', cmd', res) \<and> Command.Name cmd2 = Command.Name cmd"
  then have "commands r' (Command.Name cmd2) = Some res"
    using Register_result_indexed [of r cmd mws r' cmd' res] by simp
  then show "Register r' cmd2 mws2 = (r', cmd2, res)" by (rule Register_existing)
qed

theorem Register_idempotent_witness:
  "commands \<lparr>commands = [''ping'' \<mapsto> leaf ''ping'' [''p'']]\<rparr> (Command.Name (leaf ''ping'' []))
     = Some (leaf ''ping'' [''p''])
   \<and> Register \<lparr>commands = [''ping'' \<mapsto> leaf ''ping'' [''p'']]\<rparr> (leaf ''ping'' [])
         [aborting ''B'']
       = (\<lparr>commands = [''ping'' \<mapsto> leaf ''ping'' [''p'']]\<rparr>, leaf ''ping'' [],
          leaf ''ping'' [''p''])
   \<and> Command.Name (leaf ''ping'' []) = Command.Name (leaf ''ping'' [''p''])
   \<and> Register (fst (Register NewRegistry (leaf ''ping'' [''p'']) [passing ''A'']))
         (leaf ''ping'' []) [aborting ''B'']
       = (fst (Register NewRegistry (leaf ''ping'' [''p'']) [passing ''A'']), leaf ''ping'' [],
          snd (snd (Register NewRegistry (leaf ''ping'' [''p'']) [passing ''A''])))"
proof -
  let ?r = "\<lparr>commands = [''ping'' \<mapsto> leaf ''ping'' [''p'']]\<rparr>"
  let ?R = "Register NewRegistry (leaf ''ping'' [''p'']) [passing ''A'']"
  have a: "commands ?r (Command.Name (leaf ''ping'' [])) = Some (leaf ''ping'' [''p''])"
    by (simp add: leaf_def)
  have n: "Command.Name (leaf ''ping'' []) = Command.Name (leaf ''ping'' [''p''])"
    by (simp add: leaf_def)
  have b: "?R = (fst ?R, fst (snd ?R), snd (snd ?R))" by simp
  from Register_idempotent [of ?r "leaf ''ping'' []" "leaf ''ping'' [''p'']" "[aborting ''B'']"] a
  have one: "Register ?r (leaf ''ping'' []) [aborting ''B'']
      = (?r, leaf ''ping'' [], leaf ''ping'' [''p''])"
    by blast
  from Register_idempotent [where r = NewRegistry and cmd = "leaf ''ping'' [''p'']"
      and mws = "[passing ''A'']" and r' = "fst ?R" and cmd' = "fst (snd ?R)"
      and res = "snd (snd ?R)" and ?cmd2.0 = "leaf ''ping'' []" and ?mws2.0 = "[aborting ''B'']"] b n
  have two: "Register (fst ?R) (leaf ''ping'' []) [aborting ''B'']
      = (fst ?R, leaf ''ping'' [], snd (snd ?R))"
    by blast
  show ?thesis by (intro conjI a n one two)
qed

section \<open>Processing an event\<close>

text \<open>
  C6. For an event whose text does not begin with \<open>/\<close>, and for one whose text after
  the \<open>/\<close> has no tokens (it is empty or white space only, in ASCII or not), \<^verbatim>\<open>Process\<close> returns the response of type \<open>not_handled\<close>
  and has made no call of the registry's \<^verbatim>\<open>Find\<close>.
\<close>

theorem Process_not_handled:
  assumes "index (Event.Data e) ''text'' = AString text"
    and "\<not> HasPrefix text ''/'' \<or> Fields (TrimPrefix text ''/'') = []"
  shows "Process ep c e =
     ([], Inr \<lparr>Type = ''not_handled'', Data = ANil, Metadata = Map.empty\<rparr>)"
proof -
  from assms(2) have "ParseCommand text = []"
    by (auto simp: ParseCommand_def splitCommand_def Let_def)
  with assms(1) show ?thesis
    by (simp add: Process_def ResponseTypeNotHandled_def)
qed

theorem Process_not_handled_witness:
  "index (Event.Data (textEvent ''hello'')) ''text'' = AString ''hello''
   \<and> \<not> HasPrefix ''hello'' ''/''
   \<and> Process (processorOf NewRegistry) (GoContext False) (textEvent ''hello'')
       = ([], Inr \<lparr>Type = ''not_handled'', Data = ANil, Metadata = Map.empty\<rparr>)
   \<and> index (Event.Data (textEvent ''/  '')) ''text'' = AString ''/  ''
   \<and> Fields (TrimPrefix ''/  '' ''/'') = []
   \<and> Process (processorOf NewRegistry) (GoContext False) (textEvent ''/  '')
       = ([], Inr \<lparr>Type = ''not_handled'', Data = ANil, Metadata = Map.empty\<rparr>)
   \<and> index (Event.Data (textEvent [CHR ''/'', CHR 0xC2, CHR 0xA0])) ''text''
       = AString [CHR ''/'', CHR 0xC2, CHR 0xA0]
   \<and> Fields (TrimPrefix [CHR ''/'', CHR 0xC2, CHR 0xA0] ''/'') = []
   \<and> Process (processorOf NewRegistry) (GoContext False)
         (textEvent [CHR ''/'', CHR 0xC2, CHR 0xA0])
       = ([], Inr \<lparr>Type = ''not_handled'', Data = ANil, Metadata = Map.empty\<rparr>)"
proof -
  have a: "index (Event.Data (textEvent ''hello'')) ''text'' = AString ''hello''"
    by (simp add: textEvent_def index_def)
  have b: "\<not> HasPrefix ''hello'' ''/''" by (simp add: HasPrefix_def)
  have a': "index (Event.Data (textEvent ''/  '')) ''text'' = AString ''/  ''"
    by (simp add: textEvent_def index_def)
  have b': "Fields (TrimPrefix ''/  '' ''/'') = []"
    by (simp add: Fields_eval TrimPrefix_def HasPrefix_def)
  from b have c: "\<not> HasPrefix ''hello'' ''/'' \<or> Fields (TrimPrefix ''hello'' ''/'') = []" by (rule disjI1)
  from b' have c': "\<not> HasPrefix ''/  '' ''/'' \<or> Fields (TrimPrefix ''/  '' ''/'') = []" by (rule disjI2)
  have a'': "index (Event.Data (textEvent [CHR ''/'', CHR 0xC2, CHR 0xA0])) ''text''
       = AString [CHR ''/'', CHR 0xC2, CHR 0xA0]"
    by (simp add: textEvent_def index_def)
  have b'': "Fields (TrimPrefix [CHR ''/'', CHR 0xC2, CHR 0xA0] ''/'') = []"
    by (simp add: Fields_eval TrimPrefix_def HasPrefix_def)
  from b'' have c'': "\<not> HasPrefix [CHR ''/'', CHR 0xC2, CHR 0xA0] ''/''
      \<or> Fields (TrimPrefix [CHR ''/'', CHR 0xC2, CHR 0xA0] ''/'') = []" by (rule disjI2)
  show ?thesis
    by (intro conjI a b a' b' a'' b'' Process_not_handled [OF a c] Process_not_handled [OF a' c']
        Process_not_handled [OF a'' c''])
qed

text \<open>
  C7. When the tokens of the text resolve to no command (the registry's \<^verbatim>\<open>Find\<close>
  returns the nil command), \<^verbatim>\<open>Process\<close> returns the response of type \<open>error\<close> with
  the data \<open>command not found\<close>; it returns, it does not panic. The witness is the
  text \<open>/help\<close> on a registry without commands.
\<close>

theorem Process_command_not_found:
  assumes "index (Event.Data e) ''text'' = AString text"
    and "ParseCommand text \<noteq> []"
    and "Registry_Find (registry (plugins ep)) (ParseCommand text) = Inr (None, remaining)"
  shows "Process ep c e =
     ([ParseCommand text],
      Inr \<lparr>Type = ''error'', Data = AString ''command not found'', Metadata = Map.empty\<rparr>)"
  using assms by (simp add: Process_def ResponseTypeError_def)

theorem Process_command_not_found_witness:
  "index (Event.Data (textEvent ''/help'')) ''text'' = AString ''/help''
   \<and> ParseCommand ''/help'' = [''help'']
   \<and> Registry_Find (registry (plugins (processorOf NewRegistry))) (ParseCommand ''/help'')
       = Inr (None, [''help''])
   \<and> Process (processorOf NewRegistry) (GoContext False) (textEvent ''/help'')
       = ([[''help'']],
          Inr \<lparr>Type = ''error'', Data = AString ''command not found'', Metadata = Map.empty\<rparr>)"
proof -
  have a: "index (Event.Data (textEvent ''/help'')) ''text'' = AString ''/help''"
    by (simp add: textEvent_def index_def)
  have p: "ParseCommand ''/help'' = [''help'']"
    by (simp add: ParseCommand_def splitCommand_def Fields_eval TrimPrefix_def HasPrefix_def)
  have ne: "ParseCommand ''/help'' \<noteq> []" by (simp add: p)
  have f: "Registry_Find (registry (plugins (processorOf NewRegistry))) (ParseCommand ''/help'')
       = Inr (None, [''help''])"
    by (simp add: p processorOf_def NewRegistry_def Registry_Find_def)
  from Process_command_not_found [OF a ne f, of "GoContext False"] a p f
  show ?thesis by simp
qed

lemma Process_not_string:
  "\<forall>text. index (Event.Data e) ''text'' \<noteq> AString text \<Longrightarrow>
   Process ep c e = ([], Inl TypeAssertionPanic)"
  by (cases "index (Event.Data e) ''text''") (simp_all add: Process_def)

lemma Command_Find_panic: "Command_Find cmd args = Inl p \<Longrightarrow> p = NilDereference"
  by (induction cmd args rule: Command_Find.induct) (auto split: option.splits if_splits)

lemma Registry_Find_panic: "Registry_Find r args = Inl p \<Longrightarrow> p = NilDereference"
  by (auto simp: Registry_Find_def split: list.splits option.splits sum.splits dest: Command_Find_panic)

lemma Process_string_no_assertion_panic:
  assumes "index (Event.Data e) ''text'' = AString text"
  shows "snd (Process ep c e) \<noteq> Inl TypeAssertionPanic"
  using assms
  by (auto simp: Process_def Let_def call_def split: sum.splits option.splits prod.splits dest: Registry_Find_panic)

text \<open>
  C10. \<^verbatim>\<open>Process\<close> needs the event's data to hold a string under the key \<open>text\<close>:
  when the key is absent or bound to a value that is not a string, the type assertion
  panics, before any lookup and without a response; when it is bound to a string, the
  call does not end in that panic.
\<close>

theorem Process_text_precondition:
  "((\<forall>text. index (Event.Data e) ''text'' \<noteq> AString text)
      \<longrightarrow> Process ep c e = ([], Inl TypeAssertionPanic))
   \<and> ((\<exists>text. index (Event.Data e) ''text'' = AString text)
      \<longrightarrow> snd (Process ep c e) \<noteq> Inl TypeAssertionPanic)"
  using Process_not_string Process_string_no_assertion_panic by blast


theorem Process_text_precondition_witness:
  "(\<forall>text. index (Event.Data \<lparr>Event.Type = ''message'', Platform = ''slack'',
        Event.Data = [''image'' \<mapsto> AOther 7], Session = None\<rparr>) ''text'' \<noteq> AString text)
   \<and> Process (processorOf NewRegistry) (GoContext False)
        \<lparr>Event.Type = ''message'', Platform = ''slack'',
         Event.Data = [''image'' \<mapsto> AOther 7], Session = None\<rparr> = ([], Inl TypeAssertionPanic)
   \<and> (\<exists>text. index (Event.Data (textEvent ''/help'')) ''text'' = AString text)
   \<and> snd (Process (processorOf NewRegistry) (GoContext False) (textEvent ''/help''))
        \<noteq> Inl TypeAssertionPanic"
proof -
  let ?e = "\<lparr>Event.Type = ''message'', Platform = ''slack'',
        Event.Data = [''image'' \<mapsto> AOther 7], Session = None\<rparr>"
  have a: "\<forall>text. index (Event.Data ?e) ''text'' \<noteq> AString text"
    by (simp add: index_def)
  have b: "\<exists>text. index (Event.Data (textEvent ''/help'')) ''text'' = AString text"
    by (simp add: textEvent_def index_def)
  from Process_text_precondition [of ?e "processorOf NewRegistry" "GoContext False"] a
  have c: "Process (processorOf NewRegistry) (GoContext False) ?e = ([], Inl TypeAssertionPanic)"
    by blast
  from Process_text_precondition [of "textEvent ''/help''" "processorOf NewRegistry" "GoContext False"] b
  have d: "snd (Process (processorOf NewRegistry) (GoContext False) (textEvent ''/help''))
        \<noteq> Inl TypeAssertionPanic"
    by blast
  show ?thesis by (intro conjI a b c d)
qed

section \<open>Middlewares below the direct children\<close>

lemma admin_tree_eq:
  "admin_tree = MkCommand ''admin'' [] [] [] [] (Some (reply ''admin''))
      [(''user'', MkCommand ''user'' [] [''u''] [] [] (Some (reply ''user''))
          [(''ban'', MkCommand ''ban'' [] [''b''] [] [] (Some (reply ''ban'')) [] [])]
          [(''b'', ''ban'')])]
      [(''u'', ''user'')]"
  by (simp add: admin_tree_def AddCommand_def AddCommand1_def leaf_def)

lemma admin_registered:
  "Register NewRegistry admin_tree [aborting ''auth''] =
    (\<lparr>commands = [''admin'' \<mapsto> MkCommand ''admin'' ''admin'' [] [] []
          (aborting ''auth'' (Some (reply ''admin'')))
          [(''user'', MkCommand ''user'' ''admin user'' [''u''] [] []
             (aborting ''auth'' (Some (reply ''user'')))
             [(''ban'', MkCommand ''ban'' ''admin user ban'' [''b''] [] [] (Some (reply ''ban'')) [] [])]
             [(''b'', ''ban'')])]
          [(''u'', ''user'')]]\<rparr>,
     MkCommand ''admin'' ''admin'' [] [] []
          (aborting ''auth'' (Some (reply ''admin'')))
          [(''user'', MkCommand ''user'' ''admin user'' [''u''] [] []
             (aborting ''auth'' (Some (reply ''user'')))
             [(''ban'', MkCommand ''ban'' ''admin user ban'' [''b''] [] [] (Some (reply ''ban'')) [] [])]
             [(''b'', ''ban'')])]
          [(''u'', ''user'')],
     MkCommand ''admin'' ''admin'' [] [] []
          (aborting ''auth'' (Some (reply ''admin'')))
          [(''user'', MkCommand ''user'' ''admin user'' [''u''] [] []
             (aborting ''auth'' (Some (reply ''user'')))
             [(''ban'', MkCommand ''ban'' ''admin user ban'' [''b''] [] [] (Some (reply ''ban'')) [] [])]
             [(''b'', ''ban'')])]
          [(''u'', ''user'')])"
  by (simp add: admin_tree_eq Register_def NewRegistry_def SetFullPath_def Let_def
      registerMiddleware_def registerCommandWithAlias_def)

text \<open>
  C3. The claim: the middlewares wrap the handler of every command of the subtree, at
  every depth. \<^verbatim>\<open>Register\<close> wraps the command and its direct children only. With the
  tree admin / user / ban registered with one middleware that aborts every call, the
  command found for \<open>admin user ban\<close> still has its own handler: \<open>/admin user\<close> is
  refused by the middleware, \<open>/admin user ban\<close> runs the handler of ban.
\<close>

theorem Register_leaves_grandchild_unwrapped:
  "Registry_Find (fst (Register NewRegistry admin_tree [aborting ''auth'']))
       [''admin'', ''user'', ''ban'']
     = Inr (Some (MkCommand ''ban'' ''admin user ban'' [''b''] [] [] (Some (reply ''ban'')) [] []), [])
   \<and> Process (processorOf (fst (Register NewRegistry admin_tree [aborting ''auth''])))
         (GoContext False) (textEvent ''/admin user'')
     = ([[''admin'', ''user'']],
        Inr \<lparr>Type = ''error'', Data = AString ''denied'', Metadata = Map.empty\<rparr>)
   \<and> Process (processorOf (fst (Register NewRegistry admin_tree [aborting ''auth''])))
         (GoContext False) (textEvent ''/admin user ban'')
     = ([[''admin'', ''user'', ''ban'']],
        Inr \<lparr>Type = ''text'', Data = AString ''ban'', Metadata = Map.empty\<rparr>)"
proof -
  have p1: "ParseCommand ''/admin user'' = [''admin'', ''user'']"
    by (simp add: ParseCommand_def splitCommand_def Fields_eval TrimPrefix_def HasPrefix_def)
  have p2: "ParseCommand ''/admin user ban'' = [''admin'', ''user'', ''ban'']"
    by (simp add: ParseCommand_def splitCommand_def Fields_eval TrimPrefix_def HasPrefix_def)
  have f: "Registry_Find (fst (Register NewRegistry admin_tree [aborting ''auth'']))
       [''admin'', ''user'', ''ban'']
     = Inr (Some (MkCommand ''ban'' ''admin user ban'' [''b''] [] [] (Some (reply ''ban'')) [] []), [])"
    by (simp add: admin_registered Registry_Find_def)
  have g: "Registry_Find (fst (Register NewRegistry admin_tree [aborting ''auth'']))
       [''admin'', ''user'']
     = Inr (Some (MkCommand ''user'' ''admin user'' [''u''] [] []
             (aborting ''auth'' (Some (reply ''user'')))
             [(''ban'', MkCommand ''ban'' ''admin user ban'' [''b''] [] [] (Some (reply ''ban'')) [] [])]
             [(''b'', ''ban'')]), [])"
    by (simp add: admin_registered Registry_Find_def)
  have a: "Process (processorOf (fst (Register NewRegistry admin_tree [aborting ''auth''])))
         (GoContext False) (textEvent ''/admin user'')
     = ([[''admin'', ''user'']],
        Inr \<lparr>Type = ''error'', Data = AString ''denied'', Metadata = Map.empty\<rparr>)"
    by (simp add: Process_def textEvent_def index_def p1 processorOf_def g call_def aborting_def
        ResponseTypeError_def)
  have b: "Process (processorOf (fst (Register NewRegistry admin_tree [aborting ''auth''])))
         (GoContext False) (textEvent ''/admin user ban'')
     = ([[''admin'', ''user'', ''ban'']],
        Inr \<lparr>Type = ''text'', Data = AString ''ban'', Metadata = Map.empty\<rparr>)"
    by (simp add: Process_def textEvent_def index_def p2 processorOf_def f call_def reply_def
        mark_def ResponseTypeText_def)
  show ?thesis by (intro conjI f a b)
qed

section \<open>Resolution through an alias\<close>

lemma commands_set_commands [simp]: "Command.commands (set_commands cs c) = cs"
  by (cases c) simp

lemma commandsAliases_set_commands [simp]: "commandsAliases (set_commands cs c) = commandsAliases c"
  by (cases c) simp

lemma commands_set_Handler [simp]: "Command.commands (set_Handler h c) = Command.commands c"
  by (cases c) simp

lemma commandsAliases_set_Handler [simp]: "commandsAliases (set_Handler h c) = commandsAliases c"
  by (cases c) simp

lemma commands_set_commandsAliases [simp]:
  "Command.commands (set_commandsAliases ca c) = Command.commands c"
  by (cases c) simp

lemma commandsAliases_set_commandsAliases [simp]: "commandsAliases (set_commandsAliases ca c) = ca"
  by (cases c) simp

lemma Name_set_commandsAliases [simp]: "Command.Name (set_commandsAliases ca c) = Command.Name c"
  by (cases c) simp

lemma fullPath_set_commands [simp]: "Command.fullPath (set_commands cs c) = Command.fullPath c"
  by (cases c) simp

lemma fullPath_set_commandsAliases [simp]:
  "Command.fullPath (set_commandsAliases ca c) = Command.fullPath c"
  by (cases c) simp

lemma commands_SetFullPath_from:
  "Command.commands (SetFullPath_from p c) =
     map (\<lambda>(k, subCmd).
        (k, SetFullPath_from ((if p = [] then Command.Name c else p) @ '' '' @ Command.Name subCmd) subCmd))
       (Command.commands c)"
  by (cases c) (simp add: Let_def)

lemma commandsAliases_SetFullPath_from [simp]:
  "commandsAliases (SetFullPath_from p c) = commandsAliases c"
  by (cases c) (simp add: Let_def)

lemma map_of_children:
  "map_of (map (\<lambda>(k, subCmd). (k, f subCmd)) cs) a = map_option f (map_of cs a)"
  by (induction cs) auto

lemma Command_Find_stops:
  "map_of (Command.commands c) a = None \<Longrightarrow> map_of (commandsAliases c) a = None \<Longrightarrow>
   Command_Find c (a # args) = Inr (Some c, a # args)"
  by simp

text \<open>
  C8. A new command admin gets the child ban, whose alias is \<open>b\<close> and which has no
  child or alias \<open>userX\<close>, and is registered under a name not yet taken. Then
  \<^verbatim>\<open>Find\<close> on the tokens admin, b, userX returns the registered ban command (path
  \<open>admin ban\<close>, handler wrapped by the middlewares of the registration) with the
  remaining tokens \<open>[userX]\<close>.
\<close>

theorem Find_greedy_alias:
  assumes admin: "Command.Name admin = ''admin''" "Command.fullPath admin = []"
      "Command.commands admin = []" "commandsAliases admin = []"
    and ban: "Command.Name ban = ''ban''" "Command.Aliases ban = [''b'']"
      "map_of (Command.commands ban) ''userX'' = None" "map_of (commandsAliases ban) ''userX'' = None"
    and fresh: "commands r ''admin'' = None"
  shows "Registry_Find (fst (Register r (AddCommand admin [ban]) mws)) [''admin'', ''b'', ''userX'']
     = Inr (Some (registerMiddleware (SetFullPath_from ''admin ban'' ban) mws), [''userX''])"
proof -
  let ?tree = "AddCommand admin [ban]"
  let ?ban' = "registerMiddleware (SetFullPath_from ''admin ban'' ban) mws"
  have cs: "Command.commands ?tree = [(''ban'', ban)]"
    using admin ban by (simp add: AddCommand_def AddCommand1_def)
  have ca: "commandsAliases ?tree = [(''b'', ''ban'')]"
    using admin ban by (simp add: AddCommand_def AddCommand1_def)
  have nm: "Command.Name ?tree = ''admin''"
    using admin by (simp add: AddCommand_def AddCommand1_def)
  have fp: "Command.fullPath ?tree = []"
    using admin by (simp add: AddCommand_def AddCommand1_def)
  define root where "root = set_commands
       (map (\<lambda>(k, subCmd). (k, registerMiddleware subCmd mws))
          (Command.commands (registerMiddleware (SetFullPath ?tree) mws)))
       (registerMiddleware (SetFullPath ?tree) mws)"
  have reg: "fst (Register r ?tree mws) = registerCommandWithAlias r root"
    using fresh nm by (simp add: Register_fresh root_def)
  have rn: "Command.Name root = ''admin''"
    by (simp add: root_def nm)
  have rc: "Command.commands root = [(''ban'', ?ban')]"
    using ban by (simp add: root_def registerMiddleware_def SetFullPath_def
        commands_SetFullPath_from cs nm fp)
  have ra: "commandsAliases root = [(''b'', ''ban'')]"
    by (simp add: root_def registerMiddleware_def SetFullPath_def ca)
  have idx: "commands (fst (Register r ?tree mws)) ''admin'' = Some root"
    using registerCommandWithAlias_Name [of r root] by (simp add: reg rn)
  have bc: "map_of (Command.commands ?ban') ''userX'' = None"
    using ban by (simp add: registerMiddleware_def commands_SetFullPath_from map_of_children)
  have ba: "map_of (commandsAliases ?ban') ''userX'' = None"
    using ban by (simp add: registerMiddleware_def)
  have stop: "Command_Find ?ban' [''userX''] = Inr (Some ?ban', [''userX''])"
    using bc ba by (rule Command_Find_stops)
  have "Command_Find root [''b'', ''userX''] = Inr (Some ?ban', [''userX''])"
    by (simp add: rc ra bc ba)
  with idx show ?thesis by (simp add: Registry_Find_def)
qed

theorem Find_greedy_alias_witness:
  "Command.Name (leaf ''admin'' []) = ''admin'' \<and> Command.fullPath (leaf ''admin'' []) = []
   \<and> Command.commands (leaf ''admin'' []) = [] \<and> commandsAliases (leaf ''admin'' []) = []
   \<and> Command.Name (leaf ''ban'' [''b'']) = ''ban'' \<and> Command.Aliases (leaf ''ban'' [''b'']) = [''b'']
   \<and> map_of (Command.commands (leaf ''ban'' [''b''])) ''userX'' = None
   \<and> map_of (commandsAliases (leaf ''ban'' [''b''])) ''userX'' = None
   \<and> commands NewRegistry ''admin'' = None
   \<and> Registry_Find
        (fst (Register NewRegistry (AddCommand (leaf ''admin'' []) [leaf ''ban'' [''b'']])
                [passing ''log'']))
        [''admin'', ''b'', ''userX'']
       = Inr (Some (MkCommand ''ban'' ''admin ban'' [''b''] [] []
                      (passing ''log'' (Some (reply ''ban''))) [] []),
              [''userX''])"
proof -
  have a: "Command.Name (leaf ''admin'' []) = ''admin''" "Command.fullPath (leaf ''admin'' []) = []"
    "Command.commands (leaf ''admin'' []) = []" "commandsAliases (leaf ''admin'' []) = []"
    by (simp_all add: leaf_def)
  have b: "Command.Name (leaf ''ban'' [''b'']) = ''ban''"
    "Command.Aliases (leaf ''ban'' [''b'']) = [''b'']"
    "map_of (Command.commands (leaf ''ban'' [''b''])) ''userX'' = None"
    "map_of (commandsAliases (leaf ''ban'' [''b''])) ''userX'' = None"
    by (simp_all add: leaf_def)
  have f: "commands NewRegistry ''admin'' = None" by (simp add: NewRegistry_def)
  have v: "registerMiddleware (SetFullPath_from ''admin ban'' (leaf ''ban'' [''b''])) [passing ''log'']
      = MkCommand ''ban'' ''admin ban'' [''b''] [] [] (passing ''log'' (Some (reply ''ban''))) [] []"
    by (simp add: leaf_def registerMiddleware_def)
  from Find_greedy_alias [OF a b f, of "[passing ''log'']"] v
  have r: "Registry_Find
        (fst (Register NewRegistry (AddCommand (leaf ''admin'' []) [leaf ''ban'' [''b'']])
                [passing ''log'']))
        [''admin'', ''b'', ''userX'']
       = Inr (Some (MkCommand ''ban'' ''admin ban'' [''b''] [] []
                      (passing ''log'' (Some (reply ''ban''))) [] []),
              [''userX''])"
    by simp
  show ?thesis by (intro conjI a b f r)
qed

section \<open>The worker pool drains\<close>






















end
